theory Spec2Isabelle
  imports Complex_Main
begin

section \<open>The QA dashboard's data pipeline (src/App.jsx)\<close>

text \<open>
  The pipeline of \<^verbatim>\<open>App.jsx\<close> is a seeded generator (\<^verbatim>\<open>rnd\<close>), the builder of the
  daily series (\<^verbatim>\<open>genSeries\<close>) and the reduction of a series to totals
  (\<^verbatim>\<open>aggregate\<close>).

  Numbers. A JavaScript number is a double. Every count of the program is an integer far
  below \<open>2^53\<close>, where the arithmetic of doubles is exact, and is an \<open>int\<close> here. The
  places where the source leaves the integers (the quotient \<^verbatim>\<open>seed / 2147483647\<close> and
  its product with the width of the range, the share of passed tests, the pass rate and
  the resolve-time estimate) are computed in \<open>real\<close>, without the rounding to 53 bits.
  For a draw this changes nothing while the range has fewer than some \<open>2^20\<close> values:
  with \<open>0 < s < 2147483647\<close> and such a width \<open>n\<close>, the exact \<open>s * n / 2147483647\<close> is
  at least \<open>1 / 2147483647\<close> away from every integer, and the two roundings of the source
  move the value by less than \<open>n * 2^-52\<close>, so both have the same floor. The pass rate
  and the resolve-time estimate are the exact values of the source's formulas; the doubles
  the program holds differ from them by the rounding of each operation. The count of
  passed tests is clamped between zero and the number of tests whatever the rounded
  product is.
\<close>

subsection \<open>Data\<close>

text \<open>\<^verbatim>\<open>const TEAMS = ["Core", "Mobile", "Web", "Payments"]; const ENVS = ["Prod", "Staging", "UAT"];\<close>\<close>

datatype team = Core | Mobile | Web | Payments

datatype env = Prod | Staging | UAT

text \<open>
  One entry of the series. The source stores the date as the first ten characters of
  \<^verbatim>\<open>toISOString()\<close>; the model keeps the number of the calendar day instead.
\<close>

record DailyRecord =
  date :: int
  opened :: int
  closed :: int
  sev1 :: int
  sev2 :: int
  sev3 :: int
  tests :: int
  passed :: int

text \<open>
  The accumulator of \<^verbatim>\<open>aggregate\<close>, \<^verbatim>\<open>{ open, closed, sev1, sev2, sev3, tests, passed }\<close>.
  Its fields carry the suffix \<open>_t\<close>, since a field name belongs to one record type.
\<close>

record Totals =
  open_t :: int
  closed_t :: int
  sev1_t :: int
  sev2_t :: int
  sev3_t :: int
  tests_t :: int
  passed_t :: int

text \<open>The value \<^verbatim>\<open>{ totals, passRate, mttrDays }\<close> that \<^verbatim>\<open>aggregate\<close> returns.\<close>

record Summary =
  totals :: Totals
  passRate :: real
  mttrDays :: real

subsection \<open>The generator\<close>

text \<open>
  JavaScript's \<^verbatim>\<open>%\<close> on integers, for a divisor other than zero: the remainder of the
  division that truncates toward zero, so the result has the sign of the dividend.
\<close>

definition js_rem :: "int \<Rightarrow> int \<Rightarrow> int" where
  "js_rem a b = sgn a * (\<bar>a\<bar> mod \<bar>b\<bar>)"

text \<open>\<^verbatim>\<open>Math.round\<close>: the nearest integer, a tie going up.\<close>

definition js_round :: "real \<Rightarrow> int" where
  "js_round x = \<lfloor>x + 1 / 2\<rfloor>"

text \<open>
  \<^verbatim>\<open>let seed = 42;
  function rnd(min, max) { seed = (seed * 16807) % 2147483647;
    const r = seed / 2147483647; return Math.floor(r * (max - min + 1)) + min; }\<close>

  The variable \<^verbatim>\<open>seed\<close> of the module is the state: \<open>rnd\<close> takes it and returns the
  drawn number together with the new seed.
\<close>

definition initial_seed :: int where
  "initial_seed = 42"

definition next_seed :: "int \<Rightarrow> int" where
  "next_seed seed = js_rem (seed * 16807) 2147483647"

definition rnd :: "int \<Rightarrow> int \<Rightarrow> int \<Rightarrow> int \<times> int" where
  "rnd mn mx seed =
     (let seed' = next_seed seed;
          r = (of_int seed' :: real) / 2147483647
      in (\<lfloor>r * of_int (mx - mn + 1)\<rfloor> + mn, seed'))"

text \<open>
  The seeds the program can hold: the initial one and every seed a call of \<open>rnd\<close> leaves
  behind. Nothing else assigns the variable.
\<close>

inductive reachable :: "int \<Rightarrow> bool" where
  reachable_init: "reachable initial_seed"
| reachable_step: "reachable seed \<Longrightarrow> reachable (next_seed seed)"

subsection \<open>The builder of the daily series\<close>

text \<open>
  \<^verbatim>\<open>function daysAgo(num) { const d = new Date(); d.setDate(d.getDate() - num); return d; }
  function iso(d) { return d.toISOString().slice(0,10); }\<close>

  \<open>daysAgo\<close> reads the clock and moves the date \<open>num\<close> days back; \<open>iso\<close> prints the
  date. The clock is a parameter of the model, the number \<open>today\<close> of the current
  calendar day, the same for all records of one series, and a date is the number of its
  day, which its ten characters determine. The time of day and the time zone are not
  modelled: \<^verbatim>\<open>setDate\<close> moves the date of the local calendar and \<^verbatim>\<open>toISOString\<close>
  prints the date of universal time, and the model takes the two to move together, as
  they do while the offset of the zone stays the same over the days of the series.
\<close>

definition daysAgo :: "int \<Rightarrow> int \<Rightarrow> int" where
  "daysAgo today num = today - num"

definition iso :: "int \<Rightarrow> int" where
  "iso d = d"

text \<open>
  \<^verbatim>\<open>function range(n) { return Array.from({ length: n }, (_, i) => i); }\<close>: the indices
  \<open>0, \<dots>, n - 1\<close>, and no index when \<open>n \<le> 0\<close>.
\<close>

definition range_js :: "int \<Rightarrow> int list" where
  "range_js n = map int [0 ..< nat n]"

text \<open>
  The callback of \<^verbatim>\<open>range(days).map\<close>: one record, from six draws in the order of the
  source's statements.
\<close>

definition gen_record :: "int \<Rightarrow> int \<Rightarrow> team \<Rightarrow> env \<Rightarrow> int \<Rightarrow> int \<Rightarrow> DailyRecord \<times> int" where
  "gen_record today days tm ev i seed0 =
     (let d = daysAgo today (days - 1 - i);
          (a, seed1) = rnd 0 (if tm = Payments then 2 else 1) seed0;
          v1 = max 0 (a - (if ev = UAT then 1 else 0));
          (v2, seed2) = rnd 0 (if tm = Mobile then 5 else 3) seed1;
          (v3, seed3) = rnd 1 8 seed2;
          op = v1 + v2 + v3;
          (b, seed4) = rnd 0 3 seed3;
          cl = max 0 (op - b);
          (c, seed5) = rnd 0 40 seed4;
          ts = 80 + c;
          (k, seed6) = rnd 0 15 seed5;
          ps = max 0 (min ts (js_round (of_int ts * (3 / 4 + of_int k / 100))))
      in (\<lparr> date = iso d, opened = op, closed = cl, sev1 = v1, sev2 = v2, sev3 = v3,
             tests = ts, passed = ps \<rparr>, seed6))"

text \<open>
  \<^verbatim>\<open>Array.prototype.map\<close> with a callback that draws: the elements are visited from the
  first to the last, each call starting from the seed the one before left.
\<close>

fun map_seed :: "('a \<Rightarrow> int \<Rightarrow> 'b \<times> int) \<Rightarrow> 'a list \<Rightarrow> int \<Rightarrow> 'b list \<times> int" where
  "map_seed f [] seed = ([], seed)"
| "map_seed f (x # xs) seed =
     (let (y, seed') = f x seed;
          (ys, seed'') = map_seed f xs seed'
      in (y # ys, seed''))"

text \<open>
  \<^verbatim>\<open>function genSeries(days = 30, { team, env }) { return range(days).map(i => { ... }); }\<close>
  Besides the day of the clock, the seed goes in and out. The caller always passes
  \<open>days\<close>, so the default is not modelled.
\<close>

definition genSeries :: "int \<Rightarrow> int \<Rightarrow> team \<Rightarrow> env \<Rightarrow> int \<Rightarrow> DailyRecord list \<times> int" where
  "genSeries today days tm ev seed = map_seed (gen_record today days tm ev) (range_js days) seed"

subsection \<open>The aggregator\<close>

text \<open>The callback of \<^verbatim>\<open>series.reduce\<close>: every field of the accumulator grows by the record's.\<close>

definition add_record :: "Totals \<Rightarrow> DailyRecord \<Rightarrow> Totals" where
  "add_record acc d =
     \<lparr> open_t = open_t acc + opened d,
       closed_t = closed_t acc + closed d,
       sev1_t = sev1_t acc + sev1 d,
       sev2_t = sev2_t acc + sev2 d,
       sev3_t = sev3_t acc + sev3 d,
       tests_t = tests_t acc + tests d,
       passed_t = passed_t acc + passed d \<rparr>"

text \<open>The initial accumulator \<^verbatim>\<open>{ open:0, closed:0, sev1:0, sev2:0, sev3:0, tests:0, passed:0 }\<close>.\<close>

definition zero_totals :: Totals where
  "zero_totals =
     \<lparr> open_t = 0, closed_t = 0, sev1_t = 0, sev2_t = 0, sev3_t = 0,
       tests_t = 0, passed_t = 0 \<rparr>"

text \<open>
  \<^verbatim>\<open>const passRate = totals.tests ? totals.passed / totals.tests : 0;
  const mttrDays = Math.max(0.3, 1.2 + (totals.sev1 * 0.2) + (totals.sev2 * 0.05));\<close>

  The condition tests the total for truthiness: any total but zero takes the quotient.
\<close>

definition aggregate :: "DailyRecord list \<Rightarrow> Summary" where
  "aggregate series =
     (let t = foldl add_record zero_totals series;
          pr = (if tests_t t \<noteq> 0 then of_int (passed_t t) / of_int (tests_t t) else 0);
          mttr = max (3 / 10) (6 / 5 + of_int (sev1_t t) * (1 / 5) + of_int (sev2_t t) * (1 / 20))
      in \<lparr> totals = t, passRate = pr, mttrDays = mttr \<rparr>)"

section \<open>The generator\<close>

text \<open>On a seed that is not negative, \<^verbatim>\<open>%\<close> is the remainder of the integers.\<close>

lemma js_rem_nonneg: "0 \<le> a \<Longrightarrow> js_rem a b = a mod \<bar>b\<bar>"
  by (cases "a = 0") (simp_all add: js_rem_def)

lemma next_seed_nonneg: "0 \<le> seed \<Longrightarrow> next_seed seed = (seed * 16807) mod 2147483647"
  by (simp add: next_seed_def js_rem_nonneg)

lemma next_seed_range:
  assumes "0 \<le> seed"
  shows "0 \<le> next_seed seed" and "next_seed seed < 2147483647"
  using assms by (simp_all add: next_seed_nonneg)

lemma funpow_next_seed_nonneg: "0 \<le> seed \<Longrightarrow> 0 \<le> (next_seed ^^ n) seed"
  by (induction n) (simp_all add: next_seed_range)

text \<open>The floor of the scaled quotient is a division of integers.\<close>

lemma floor_scaled:
  "\<lfloor>(of_int a :: real) / 2147483647 * of_int n\<rfloor> = (a * n) div 2147483647"
proof -
  have "(of_int a :: real) / 2147483647 * of_int n = of_int (a * n) / of_int 2147483647"
    by simp
  then show ?thesis
    by (simp only: floor_divide_of_int_eq)
qed

lemma div_modulus_less:
  fixes x n :: int
  assumes "x < 2147483647 * n"
  shows "x div 2147483647 < n"
proof -
  have "2147483647 * (x div 2147483647) + x mod 2147483647 = x"
    by (rule mult_div_mod_eq)
  moreover have "0 \<le> x mod 2147483647"
    by simp
  ultimately show ?thesis
    using assms by linarith
qed

lemma fst_rnd: "fst (rnd mn mx seed) = (next_seed seed * (mx - mn + 1)) div 2147483647 + mn"
  by (simp only: rnd_def Let_def fst_conv floor_scaled)

lemma snd_rnd: "snd (rnd mn mx seed) = next_seed seed"
  by (simp add: rnd_def Let_def)

lemma rnd_bounds:
  assumes "0 \<le> seed" and "mn \<le> mx"
  shows "mn \<le> fst (rnd mn mx seed)" and "fst (rnd mn mx seed) \<le> mx"
proof -
  let ?a = "next_seed seed" and ?n = "mx - mn + 1"
  have a: "0 \<le> ?a" "?a < 2147483647"
    using assms(1) by (rule next_seed_range)+
  have n: "0 < ?n"
    using assms(2) by simp
  have "0 \<le> ?a * ?n"
    using a(1) n by simp
  then have lo: "0 \<le> (?a * ?n) div 2147483647"
    by (simp add: pos_imp_zdiv_nonneg_iff)
  have "?a * ?n < 2147483647 * ?n"
    using a(2) n by (rule mult_strict_right_mono)
  then have hi: "(?a * ?n) div 2147483647 < ?n"
    by (rule div_modulus_less)
  show "mn \<le> fst (rnd mn mx seed)"
    using lo by (simp add: fst_rnd)
  show "fst (rnd mn mx seed) \<le> mx"
    using hi by (simp add: fst_rnd)
qed

text \<open>
  The multiplier has an inverse modulo \<open>2147483647\<close>, namely \<open>1407677000\<close>, so a step
  takes no seed but zero to zero: the seeds of the program stay strictly between \<open>0\<close> and
  the modulus.
\<close>

lemma next_seed_zero:
  assumes "0 \<le> seed" and "seed < 2147483647" and "next_seed seed = 0"
  shows "seed = 0"
proof -
  have "(seed * 16807) mod 2147483647 = 0"
    using assms by (simp add: next_seed_nonneg)
  then have "(seed * 16807 * 1407677000) mod 2147483647 = 0"
    by (metis mod_mult_left_eq mult_zero_left mod_0)
  moreover have "seed * 16807 * 1407677000 = seed * (16807 * 1407677000)"
    by simp
  moreover have "(seed * (16807 * 1407677000)) mod 2147483647 =
      (seed * ((16807 * 1407677000) mod 2147483647)) mod 2147483647"
    by (simp only: mod_mult_right_eq)
  moreover have "(16807 * 1407677000) mod 2147483647 = (1::int)"
    by simp
  ultimately have "seed mod 2147483647 = 0"
    by simp
  then show ?thesis
    using assms(1,2) by simp
qed

lemma reachable_range: "reachable seed \<Longrightarrow> 0 < seed \<and> seed < 2147483647"
proof (induction rule: reachable.induct)
  case reachable_init
  show ?case by (simp add: initial_seed_def)
next
  case (reachable_step seed)
  then have s: "0 \<le> seed" "seed < 2147483647" "seed \<noteq> 0"
    by simp_all
  have "next_seed seed \<noteq> 0"
    using next_seed_zero [OF s(1,2)] s(3) by blast
  then show ?case
    using next_seed_range [OF s(1)] by simp
qed

lemma reachable_rnd: "reachable seed \<Longrightarrow> reachable (snd (rnd mn mx seed))"
  by (simp only: snd_rnd reachable_step)

text \<open>
  C3. For integers \<open>mn \<le> mx\<close> and a seed \<open>s\<close> reachable from the initial seed 42, one
  call of \<open>rnd\<close> leaves the seed \<open>s' = (s * 16807) mod 2147483647\<close> and returns
  \<open>\<lfloor>(s' / 2147483647) * (mx - mn + 1)\<rfloor> + mn\<close>, an integer of the closed interval from
  \<open>mn\<close> to \<open>mx\<close>.
\<close>

theorem rnd_contract:
  assumes "reachable seed" and "mn \<le> mx"
  shows "snd (rnd mn mx seed) = (seed * 16807) mod 2147483647 \<and>
         fst (rnd mn mx seed) =
           \<lfloor>(of_int (snd (rnd mn mx seed)) / 2147483647 :: real) * of_int (mx - mn + 1)\<rfloor> + mn \<and>
         mn \<le> fst (rnd mn mx seed) \<and> fst (rnd mn mx seed) \<le> mx"
proof -
  have s: "0 \<le> seed"
    using reachable_range [OF assms(1)] by simp
  have "snd (rnd mn mx seed) = (seed * 16807) mod 2147483647"
    by (simp only: snd_rnd next_seed_nonneg [OF s])
  moreover have "fst (rnd mn mx seed) =
      \<lfloor>(of_int (snd (rnd mn mx seed)) / 2147483647 :: real) * of_int (mx - mn + 1)\<rfloor> + mn"
    by (simp only: rnd_def Let_def fst_conv snd_conv)
  ultimately show ?thesis
    using rnd_bounds [OF s assms(2)] by simp
qed

text \<open>The second call of the program, a draw from \<open>0..3\<close> at the seed the first call left.\<close>

theorem rnd_contract_witness:
  "reachable 705894 \<and> (0::int) \<le> 3 \<and>
   snd (rnd 0 3 705894) = 1126542223 \<and> fst (rnd 0 3 705894) = 2 \<and>
   0 \<le> fst (rnd 0 3 705894) \<and> fst (rnd 0 3 705894) \<le> 3"
proof -
  have "reachable (next_seed initial_seed)"
    using reachable_init by (rule reachable_step)
  then have h1: "reachable 705894"
    by (simp add: initial_seed_def next_seed_def js_rem_def)
  have h2: "(0::int) \<le> 3"
    by simp
  show ?thesis
    using h1 h2 rnd_contract [OF h1 h2] by simp
qed


section \<open>The builder of the daily series\<close>

subsection \<open>One record\<close>

text \<open>
  The record of one day, with each draw written at the seed it starts from: the \<open>k\<close>-th
  call of the callback starts \<open>k - 1\<close> steps after the seed the callback was entered with.
\<close>

lemma gen_record_fields:
  "gen_record today days tm ev i seed =
     (\<lparr> date = today - (days - 1 - i),
         opened = max 0 (fst (rnd 0 (if tm = Payments then 2 else 1) seed) - (if ev = UAT then 1 else 0))
                  + fst (rnd 0 (if tm = Mobile then 5 else 3) (next_seed seed))
                  + fst (rnd 1 8 ((next_seed ^^ 2) seed)),
         closed = max 0 (max 0 (fst (rnd 0 (if tm = Payments then 2 else 1) seed) - (if ev = UAT then 1 else 0))
                  + fst (rnd 0 (if tm = Mobile then 5 else 3) (next_seed seed))
                  + fst (rnd 1 8 ((next_seed ^^ 2) seed))
                  - fst (rnd 0 3 ((next_seed ^^ 3) seed))),
         sev1 = max 0 (fst (rnd 0 (if tm = Payments then 2 else 1) seed) - (if ev = UAT then 1 else 0)),
         sev2 = fst (rnd 0 (if tm = Mobile then 5 else 3) (next_seed seed)),
         sev3 = fst (rnd 1 8 ((next_seed ^^ 2) seed)),
         tests = 80 + fst (rnd 0 40 ((next_seed ^^ 4) seed)),
         passed = max 0 (min (80 + fst (rnd 0 40 ((next_seed ^^ 4) seed)))
                    (js_round (of_int (80 + fst (rnd 0 40 ((next_seed ^^ 4) seed)))
                       * (3 / 4 + of_int (fst (rnd 0 15 ((next_seed ^^ 5) seed))) / 100)))) \<rparr>,
       (next_seed ^^ 6) seed)"
  by (simp only: gen_record_def Let_def split_def snd_rnd daysAgo_def iso_def numeral_nat
      funpow.simps o_def id_def)

lemma snd_gen_record: "snd (gen_record today days tm ev i seed) = (next_seed ^^ 6) seed"
  by (simp only: gen_record_fields snd_conv)

lemma gen_record_seed_nonneg:
  "0 \<le> seed \<Longrightarrow> 0 \<le> snd (gen_record today days tm ev i seed)"
  by (simp only: snd_gen_record funpow_next_seed_nonneg)


lemma opened_gen_record:
  "opened (fst (gen_record today days tm ev i seed)) =
     sev1 (fst (gen_record today days tm ev i seed)) +
     sev2 (fst (gen_record today days tm ev i seed)) +
     sev3 (fst (gen_record today days tm ev i seed))"
  by (simp add: gen_record_fields)

lemma gen_record_ranges:
  assumes "0 \<le> seed"
  shows "0 \<le> sev1 (fst (gen_record today days tm ev i seed))"
    and "0 \<le> sev2 (fst (gen_record today days tm ev i seed))"
    and "1 \<le> sev3 (fst (gen_record today days tm ev i seed))"
    and "0 \<le> closed (fst (gen_record today days tm ev i seed))"
    and "closed (fst (gen_record today days tm ev i seed)) \<le> opened (fst (gen_record today days tm ev i seed))"
    and "80 \<le> tests (fst (gen_record today days tm ev i seed))"
    and "0 \<le> passed (fst (gen_record today days tm ev i seed))"
    and "passed (fst (gen_record today days tm ev i seed)) \<le> tests (fst (gen_record today days tm ev i seed))"
proof -
  let ?r = "fst (gen_record today days tm ev i seed)"
  have s: "0 \<le> (next_seed ^^ n) seed" for n
    using assms by (rule funpow_next_seed_nonneg)
  show v1: "0 \<le> sev1 ?r"
    by (simp add: gen_record_fields)
  have "0 \<le> fst (rnd 0 (if tm = Mobile then 5 else 3) ((next_seed ^^ 1) seed))"
    by (rule rnd_bounds(1) [OF s]) simp
  then show v2: "0 \<le> sev2 ?r"
    by (simp add: gen_record_fields)
  have "1 \<le> fst (rnd 1 8 ((next_seed ^^ 2) seed))"
    by (rule rnd_bounds(1) [OF s]) simp
  then show v3: "1 \<le> sev3 ?r"
    by (simp add: gen_record_fields)
  show "0 \<le> closed ?r"
    by (simp add: gen_record_fields)
  have b: "0 \<le> fst (rnd 0 3 ((next_seed ^^ 3) seed))"
    by (rule rnd_bounds(1) [OF s]) simp
  have cl: "closed ?r = max 0 (opened ?r - fst (rnd 0 3 ((next_seed ^^ 3) seed)))"
    by (simp add: gen_record_fields)
  have "0 \<le> opened ?r"
    using v1 v2 v3 by (simp only: opened_gen_record)
  then show "closed ?r \<le> opened ?r"
    using b by (simp add: cl)
  have "0 \<le> fst (rnd 0 40 ((next_seed ^^ 4) seed))"
    by (rule rnd_bounds(1) [OF s]) simp
  then show t: "80 \<le> tests ?r"
    by (simp add: gen_record_fields)
  show "0 \<le> passed ?r"
    by (simp add: gen_record_fields)
  show "passed ?r \<le> tests ?r"
    using t by (simp add: gen_record_fields)
qed

subsection \<open>The map that threads the seed\<close>

lemma fst_map_seed_Cons:
  "fst (map_seed f (x # xs) seed) = fst (f x seed) # fst (map_seed f xs (snd (f x seed)))"
  by (simp add: split_def Let_def)

lemma snd_map_seed_Cons:
  "snd (map_seed f (x # xs) seed) = snd (map_seed f xs (snd (f x seed)))"
  by (simp add: split_def Let_def)

declare map_seed.simps(2) [simp del]


text \<open>When every call of the callback advances the seed by \<open>k\<close> steps of \<open>g\<close>:\<close>

lemma snd_map_seed:
  assumes "\<And>x s. snd (f x s) = (g ^^ k) s"
  shows "snd (map_seed f xs seed) = (g ^^ (k * length xs)) seed"
proof (induction xs arbitrary: seed)
  case Nil
  show ?case by simp
next
  case (Cons x xs)
  have "snd (map_seed f (x # xs) seed) = (g ^^ (k * length xs)) ((g ^^ k) seed)"
    by (simp only: snd_map_seed_Cons Cons.IH assms)
  also have "\<dots> = (g ^^ (k * length xs + k)) seed"
    by (simp only: funpow_add o_apply)
  finally show ?case by (simp add: add.commute)
qed

lemma nth_map_seed:
  assumes "\<And>x s. snd (f x s) = (g ^^ k) s" and "i < length xs"
  shows "fst (map_seed f xs seed) ! i = fst (f (xs ! i) ((g ^^ (k * i)) seed))"
  using assms(2)
proof (induction xs arbitrary: seed i)
  case Nil
  then show ?case by simp
next
  case (Cons x xs)
  show ?case
  proof (cases i)
    case 0
    then show ?thesis by (simp add: fst_map_seed_Cons)
  next
    case (Suc j)
    then have j: "j < length xs"
      using Cons.prems by simp
    have "fst (map_seed f (x # xs) seed) ! i = fst (map_seed f xs ((g ^^ k) seed)) ! j"
      by (simp add: fst_map_seed_Cons Suc assms(1))
    also have "\<dots> = fst (f (xs ! j) ((g ^^ (k * j)) ((g ^^ k) seed)))"
      by (rule Cons.IH [OF j])
    also have "(g ^^ (k * j)) ((g ^^ k) seed) = (g ^^ (k * j + k)) seed"
      by (simp only: funpow_add o_apply)
    also have "k * j + k = k * i"
      by (simp add: Suc)
    finally show ?thesis by (simp add: Suc)
  qed
qed

text \<open>Every element of the result is a value of the callback, at a seed that keeps an invariant.\<close>

lemma set_map_seed:
  assumes "\<And>x s. P s \<Longrightarrow> P (snd (f x s))" and "P seed"
    and "r \<in> set (fst (map_seed f xs seed))"
  shows "\<exists>x s. P s \<and> r = fst (f x s)"
  using assms(2,3)
proof (induction xs arbitrary: seed)
  case Nil
  then show ?case by simp
next
  case (Cons x xs)
  from Cons.prems(2) have "r = fst (f x seed) \<or> r \<in> set (fst (map_seed f xs (snd (f x seed))))"
    by (simp add: fst_map_seed_Cons)
  then show ?case
  proof
    assume "r = fst (f x seed)"
    with Cons.prems(1) show ?thesis by blast
  next
    assume "r \<in> set (fst (map_seed f xs (snd (f x seed))))"
    moreover have "P (snd (f x seed))"
      using Cons.prems(1) by (rule assms(1))
    ultimately show ?thesis by (rule Cons.IH [rotated])
  qed
qed

subsection \<open>The series\<close>

lemma length_range_js: "length (range_js n) = nat n"
  by (simp add: range_js_def)

lemma nth_range_js: "i < nat n \<Longrightarrow> range_js n ! i = int i"
  by (simp add: range_js_def)


lemma snd_genSeries: "snd (genSeries today days tm ev seed) = (next_seed ^^ (6 * nat days)) seed"
  unfolding genSeries_def
  by (simp only: snd_map_seed [OF snd_gen_record] length_range_js)

lemma nth_genSeries:
  assumes "i < nat days"
  shows "fst (genSeries today days tm ev seed) ! i =
         fst (gen_record today days tm ev (int i) ((next_seed ^^ (6 * i)) seed))"
proof -
  have i: "i < length (range_js days)"
    using assms by (simp only: length_range_js)
  have "fst (genSeries today days tm ev seed) ! i =
        fst (gen_record today days tm ev (range_js days ! i) ((next_seed ^^ (6 * i)) seed))"
    unfolding genSeries_def
    by (rule nth_map_seed [OF snd_gen_record i])
  then show ?thesis
    by (simp only: nth_range_js [OF assms])
qed


text \<open>Every record of a series is a record of the callback; from a seed that is not
  negative, the callback was entered with such a seed.\<close>

lemma genSeries_record:
  assumes "0 \<le> seed" and "r \<in> set (fst (genSeries today days tm ev seed))"
  shows "\<exists>i s. 0 \<le> s \<and> r = fst (gen_record today days tm ev i s)"
  using set_map_seed [where P = "\<lambda>s. 0 \<le> s" and f = "gen_record today days tm ev",
      OF gen_record_seed_nonneg assms(1)] assms(2)
  unfolding genSeries_def by blast

subsection \<open>A run: two days for team Core in Staging, from the initial seed\<close>

text \<open>The twelve calls of \<open>rnd\<close> of this run, each at the seed the call before left.\<close>

lemma rnd_example:
  "rnd 0 1 42 = (0, 705894)"
  "rnd 0 3 705894 = (2, 1126542223)"
  "rnd 1 8 1126542223 = (6, 1579310009)"
  "rnd 0 3 1579310009 = (1, 565444343)"
  "rnd 0 40 565444343 = (15, 807934826)"
  "rnd 0 15 807934826 = (3, 421520601)"
  "rnd 0 1 421520601 = (1, 2095673201)"
  "rnd 0 3 2095673201 = (2, 1100194760)"
  "rnd 1 8 1100194760 = (5, 1139130650)"
  "rnd 0 3 1139130650 = (1, 552121545)"
  "rnd 0 40 552121545 = (4, 229968128)"
  "rnd 0 15 229968128 = (13, 1751246343)"
  by (simp_all add: rnd_def next_seed_def js_rem_def Let_def)

lemma gen_record_example:
  "gen_record 1000 2 Core Staging 0 42 =
     (\<lparr> date = 999, opened = 8, closed = 7, sev1 = 0, sev2 = 2, sev3 = 6, tests = 95, passed = 74 \<rparr>,
      421520601)"
  "gen_record 1000 2 Core Staging 1 421520601 =
     (\<lparr> date = 1000, opened = 8, closed = 7, sev1 = 1, sev2 = 2, sev3 = 5, tests = 84, passed = 74 \<rparr>,
      1751246343)"
  by (simp_all add: gen_record_def rnd_example daysAgo_def iso_def js_round_def)

lemma genSeries_example:
  "genSeries 1000 2 Core Staging 42 =
     ([\<lparr> date = 999, opened = 8, closed = 7, sev1 = 0, sev2 = 2, sev3 = 6, tests = 95, passed = 74 \<rparr>,
       \<lparr> date = 1000, opened = 8, closed = 7, sev1 = 1, sev2 = 2, sev3 = 5, tests = 84, passed = 74 \<rparr>],
      1751246343)"
proof -
  have "range_js 2 = [0, 1]"
    by (simp add: range_js_def eval_nat_numeral upt_conv_Cons)
  then show ?thesis
    by (simp add: genSeries_def map_seed.simps gen_record_example)
qed

subsection \<open>Properties of the records\<close>

text \<open>
  C1. Every record of the series that \<open>genSeries\<close> builds, for any number of days, any
  team and environment and any seed it starts from, has
  \<open>opened = sev1 + sev2 + sev3\<close>.
\<close>

theorem genSeries_opened_is_sum:
  assumes "r \<in> set (fst (genSeries today days tm ev seed))"
  shows "opened r = sev1 r + sev2 r + sev3 r"
proof -
  from assms obtain i s where "r = fst (gen_record today days tm ev i s)"
    unfolding genSeries_def
    using set_map_seed [where P = "\<lambda>_. True" and f = "gen_record today days tm ev"] by blast
  then show ?thesis
    by (simp only: opened_gen_record)
qed

theorem genSeries_opened_is_sum_witness:
  "\<lparr> date = 999, opened = 8, closed = 7, sev1 = 0, sev2 = 2, sev3 = 6, tests = 95, passed = 74 \<rparr>
     \<in> set (fst (genSeries 1000 2 Core Staging 42)) \<and>
   opened \<lparr> date = 999, opened = 8, closed = 7, sev1 = 0, sev2 = 2, sev3 = 6, tests = 95, passed = 74 \<rparr>
     = sev1 \<lparr> date = 999, opened = 8, closed = 7, sev1 = 0, sev2 = 2, sev3 = 6, tests = 95, passed = 74 \<rparr>
     + sev2 \<lparr> date = 999, opened = 8, closed = 7, sev1 = 0, sev2 = 2, sev3 = 6, tests = 95, passed = 74 \<rparr>
     + sev3 \<lparr> date = 999, opened = 8, closed = 7, sev1 = 0, sev2 = 2, sev3 = 6, tests = 95, passed = 74 \<rparr>"
proof -
  have h: "\<lparr> date = 999, opened = 8, closed = 7, sev1 = 0, sev2 = 2, sev3 = 6, tests = 95, passed = 74 \<rparr>
     \<in> set (fst (genSeries 1000 2 Core Staging 42))"
    by (simp add: genSeries_example)
  show ?thesis
    using h genSeries_opened_is_sum [OF h] by (rule conjI)
qed

text \<open>
  C2. Every record of the series that \<open>genSeries\<close> builds, for any number of days and any
  team and environment, from a seed of the generator (a seed that is not negative, as
  every seed of the program is), has \<open>0 \<le> passed \<le> tests\<close>, a positive \<open>tests\<close>,
  \<open>closed \<ge> 0\<close> and \<open>sev1\<close>, \<open>sev2\<close>, \<open>sev3\<close> that are not negative.
\<close>

theorem genSeries_record_bounds:
  assumes "0 \<le> seed" and "r \<in> set (fst (genSeries today days tm ev seed))"
  shows "0 \<le> passed r \<and> passed r \<le> tests r \<and> 0 < tests r \<and> 0 \<le> closed r \<and>
         0 \<le> sev1 r \<and> 0 \<le> sev2 r \<and> 0 \<le> sev3 r"
proof -
  from genSeries_record [OF assms] obtain i s
    where s: "0 \<le> s" and r: "r = fst (gen_record today days tm ev i s)"
    by blast
  note b = gen_record_ranges [OF s, of today days tm ev i, folded r]
  from b(6) have "0 < tests r" by simp
  moreover from b(3) have "0 \<le> sev3 r" by simp
  ultimately show ?thesis
    using b(1,2,4,7,8) by simp
qed

theorem genSeries_record_bounds_witness:
  "(0::int) \<le> 42 \<and>
   \<lparr> date = 1000, opened = 8, closed = 7, sev1 = 1, sev2 = 2, sev3 = 5, tests = 84, passed = 74 \<rparr>
     \<in> set (fst (genSeries 1000 2 Core Staging 42)) \<and>
   (0::int) \<le> 74 \<and> (74::int) \<le> 84 \<and> (0::int) < 84 \<and> (0::int) \<le> 7 \<and>
   (0::int) \<le> 1 \<and> (0::int) \<le> 2 \<and> (0::int) \<le> 5"
proof -
  have h1: "(0::int) \<le> 42"
    by simp
  have h2: "\<lparr> date = 1000, opened = 8, closed = 7, sev1 = 1, sev2 = 2, sev3 = 5, tests = 84, passed = 74 \<rparr>
     \<in> set (fst (genSeries 1000 2 Core Staging 42))"
    by (simp add: genSeries_example)
  show ?thesis
    using h1 h2 genSeries_record_bounds [OF h1 h2] by simp
qed

text \<open>
  C10. Every record of the series that \<open>genSeries\<close> builds, for any number of days and any
  team and environment, from a seed of the generator (a seed that is not negative), has
  \<open>closed \<le> opened\<close>: the draw from \<open>0..3\<close> that is subtracted is never negative, and
  \<open>closed\<close> is the maximum of zero and the difference.
\<close>

theorem genSeries_closed_le_opened:
  assumes "0 \<le> seed" and "r \<in> set (fst (genSeries today days tm ev seed))"
  shows "0 \<le> fst (rnd 0 3 seed) \<and> closed r \<le> opened r"
proof -
  from genSeries_record [OF assms] obtain i s
    where s: "0 \<le> s" and r: "r = fst (gen_record today days tm ev i s)"
    by blast
  have "closed r \<le> opened r"
    by (simp only: r gen_record_ranges(5) [OF s])
  moreover have "0 \<le> fst (rnd 0 3 seed)"
    by (rule rnd_bounds(1) [OF assms(1)]) simp
  ultimately show ?thesis by simp
qed

theorem genSeries_closed_le_opened_witness:
  "(0::int) \<le> 42 \<and>
   \<lparr> date = 999, opened = 8, closed = 7, sev1 = 0, sev2 = 2, sev3 = 6, tests = 95, passed = 74 \<rparr>
     \<in> set (fst (genSeries 1000 2 Core Staging 42)) \<and>
   0 \<le> fst (rnd 0 3 42) \<and> (7::int) \<le> 8"
proof -
  have h1: "(0::int) \<le> 42"
    by simp
  have h2: "\<lparr> date = 999, opened = 8, closed = 7, sev1 = 0, sev2 = 2, sev3 = 6, tests = 95, passed = 74 \<rparr>
     \<in> set (fst (genSeries 1000 2 Core Staging 42))"
    by (simp add: genSeries_example)
  show ?thesis
    using h1 h2 genSeries_closed_le_opened [OF h1 h2] by simp
qed

subsection \<open>Length, dates and draws of the series\<close>



text \<open>
  C5. For any number of days, team, environment and seed \<open>s\<close>, a run of \<open>genSeries\<close> makes
  six calls of the generator for each day, in the order of the draws for \<open>sev1\<close>, \<open>sev2\<close>,
  \<open>sev3\<close>, the number subtracted for \<open>closed\<close>, \<open>tests\<close> and \<open>passed\<close>: the record at
  index \<open>i\<close> is built from the seed \<open>6 * i\<close> steps after \<open>s\<close>, its six draws start at
  that seed and at the seeds one to five steps later, and the run leaves the seed
  \<open>6 * days\<close> steps after \<open>s\<close>. With \<open>days = 0\<close> the series is empty and the seed is
  unchanged.
\<close>

theorem genSeries_six_draws_per_day:
  "snd (genSeries today days tm ev seed) = (next_seed ^^ (6 * nat days)) seed \<and>
   genSeries today 0 tm ev seed = ([], seed) \<and>
   (\<forall>i < nat days.
      fst (genSeries today days tm ev seed) ! i =
      fst (gen_record today days tm ev (int i) ((next_seed ^^ (6 * i)) seed))) \<and>
   gen_record today days tm ev j s =
     (\<lparr> date = today - (days - 1 - j),
         opened = max 0 (fst (rnd 0 (if tm = Payments then 2 else 1) s) - (if ev = UAT then 1 else 0))
                  + fst (rnd 0 (if tm = Mobile then 5 else 3) (next_seed s))
                  + fst (rnd 1 8 ((next_seed ^^ 2) s)),
         closed = max 0 (max 0 (fst (rnd 0 (if tm = Payments then 2 else 1) s) - (if ev = UAT then 1 else 0))
                  + fst (rnd 0 (if tm = Mobile then 5 else 3) (next_seed s))
                  + fst (rnd 1 8 ((next_seed ^^ 2) s))
                  - fst (rnd 0 3 ((next_seed ^^ 3) s))),
         sev1 = max 0 (fst (rnd 0 (if tm = Payments then 2 else 1) s) - (if ev = UAT then 1 else 0)),
         sev2 = fst (rnd 0 (if tm = Mobile then 5 else 3) (next_seed s)),
         sev3 = fst (rnd 1 8 ((next_seed ^^ 2) s)),
         tests = 80 + fst (rnd 0 40 ((next_seed ^^ 4) s)),
         passed = max 0 (min (80 + fst (rnd 0 40 ((next_seed ^^ 4) s)))
                    (js_round (of_int (80 + fst (rnd 0 40 ((next_seed ^^ 4) s)))
                       * (3 / 4 + of_int (fst (rnd 0 15 ((next_seed ^^ 5) s))) / 100)))) \<rparr>,
       (next_seed ^^ 6) s)"
proof -
  have "genSeries today 0 tm ev seed = ([], seed)"
    by (simp add: genSeries_def range_js_def)
  then show ?thesis
    using snd_genSeries [of today days tm ev seed] nth_genSeries [of _ days today tm ev seed]
      gen_record_fields [of today days tm ev j s]
    by blast
qed

theorem genSeries_six_draws_per_day_witness:
  "(next_seed ^^ 12) 42 = 1751246343 \<and>
   genSeries 1000 0 Core Staging 42 = ([], 42) \<and>
   fst (gen_record 1000 2 Core Staging 1 ((next_seed ^^ 6) 42)) =
     \<lparr> date = 1000, opened = 8, closed = 7, sev1 = 1, sev2 = 2, sev3 = 5, tests = 84, passed = 74 \<rparr>"
proof -
  note t = genSeries_six_draws_per_day [of 1000 2 Core Staging 42 0 42]
  from t have "snd (genSeries 1000 2 Core Staging 42) = (next_seed ^^ 12) 42"
    by simp
  then have a: "(next_seed ^^ 12) 42 = 1751246343"
    by (simp add: genSeries_example)
  from t have b: "genSeries 1000 0 Core Staging 42 = ([], 42)"
    by simp
  from t have nth: "fst (genSeries 1000 2 Core Staging 42) ! i =
      fst (gen_record 1000 2 Core Staging (int i) ((next_seed ^^ (6 * i)) 42))"
    if "i < 2" for i
    using that by simp
  have "fst (genSeries 1000 2 Core Staging 42) ! 1 =
      fst (gen_record 1000 2 Core Staging (int 1) ((next_seed ^^ (6 * 1)) 42))"
    by (rule nth) simp
  then have c: "fst (gen_record 1000 2 Core Staging 1 ((next_seed ^^ 6) 42)) =
     \<lparr> date = 1000, opened = 8, closed = 7, sev1 = 1, sev2 = 2, sev3 = 5, tests = 84, passed = 74 \<rparr>"
    by (simp add: genSeries_example)
  show ?thesis
    using a b c by simp
qed

section \<open>The aggregator\<close>

lemma add_record_sel:
  "open_t (add_record acc d) = open_t acc + opened d"
  "closed_t (add_record acc d) = closed_t acc + closed d"
  "sev1_t (add_record acc d) = sev1_t acc + sev1 d"
  "sev2_t (add_record acc d) = sev2_t acc + sev2 d"
  "sev3_t (add_record acc d) = sev3_t acc + sev3 d"
  "tests_t (add_record acc d) = tests_t acc + tests d"
  "passed_t (add_record acc d) = passed_t acc + passed d"
  by (simp_all add: add_record_def)

text \<open>The fold from any accumulator, by induction on the series.\<close>

lemma foldl_add_record:
  "foldl add_record acc xs =
     \<lparr> open_t = open_t acc + sum_list (map opened xs),
       closed_t = closed_t acc + sum_list (map closed xs),
       sev1_t = sev1_t acc + sum_list (map sev1 xs),
       sev2_t = sev2_t acc + sum_list (map sev2 xs),
       sev3_t = sev3_t acc + sum_list (map sev3 xs),
       tests_t = tests_t acc + sum_list (map tests xs),
       passed_t = passed_t acc + sum_list (map passed xs) \<rparr>"
proof (induction xs arbitrary: acc)
  case Nil
  show ?case by simp
next
  case (Cons x xs)
  show ?case
    by (simp add: Cons.IH add_record_sel add.assoc)
qed

lemma totals_aggregate:
  "totals (aggregate xs) =
     \<lparr> open_t = sum_list (map opened xs),
       closed_t = sum_list (map closed xs),
       sev1_t = sum_list (map sev1 xs),
       sev2_t = sum_list (map sev2 xs),
       sev3_t = sum_list (map sev3 xs),
       tests_t = sum_list (map tests xs),
       passed_t = sum_list (map passed xs) \<rparr>"
  by (simp add: aggregate_def Let_def foldl_add_record zero_totals_def)

lemma passRate_aggregate:
  "passRate (aggregate xs) =
     (if sum_list (map tests xs) \<noteq> 0
      then of_int (sum_list (map passed xs)) / of_int (sum_list (map tests xs)) else 0)"
  by (simp add: aggregate_def Let_def foldl_add_record zero_totals_def)

lemma mttrDays_aggregate:
  "mttrDays (aggregate xs) =
     max (3 / 10) (6 / 5 + of_int (sum_list (map sev1 xs)) * (1 / 5)
                    + of_int (sum_list (map sev2 xs)) * (1 / 20))"
  by (simp add: aggregate_def Let_def foldl_add_record zero_totals_def)

lemma sum_passed_bounds:
  assumes "\<forall>r \<in> set xs. 0 \<le> passed r \<and> passed r \<le> tests r"
  shows "0 \<le> sum_list (map passed xs)"
    and "sum_list (map passed xs) \<le> sum_list (map tests xs)"
  using assms by (induction xs) auto

text \<open>
  C6. For every series, generated or not, each field of the totals of \<open>aggregate\<close> is the
  sum over the series of the matching field of the records (\<open>open\<close> sums \<open>opened\<close>), and
  the totals of the empty series are zero.
\<close>

theorem aggregate_totals_fieldwise_sum:
  "open_t (totals (aggregate xs)) = sum_list (map opened xs) \<and>
   closed_t (totals (aggregate xs)) = sum_list (map closed xs) \<and>
   sev1_t (totals (aggregate xs)) = sum_list (map sev1 xs) \<and>
   sev2_t (totals (aggregate xs)) = sum_list (map sev2 xs) \<and>
   sev3_t (totals (aggregate xs)) = sum_list (map sev3 xs) \<and>
   tests_t (totals (aggregate xs)) = sum_list (map tests xs) \<and>
   passed_t (totals (aggregate xs)) = sum_list (map passed xs) \<and>
   totals (aggregate []) = zero_totals"
  by (simp add: totals_aggregate zero_totals_def)

text \<open>
  C7. On the empty series \<open>aggregate\<close> returns totals that are zero in every field, the
  pass rate \<open>0\<close> and the resolve-time estimate \<open>1.2\<close>.
\<close>

theorem aggregate_empty:
  "aggregate [] =
     \<lparr> totals = \<lparr> open_t = 0, closed_t = 0, sev1_t = 0, sev2_t = 0, sev3_t = 0,
                  tests_t = 0, passed_t = 0 \<rparr>,
       passRate = 0, mttrDays = 6 / 5 \<rparr>"
  by (simp add: aggregate_def zero_totals_def)

text \<open>
  C8. For a series whose records all have \<open>0 \<le> passed \<le> tests\<close>, the pass rate of
  \<open>aggregate\<close> lies between \<open>0\<close> and \<open>1\<close> and is \<open>0\<close> when the total of \<open>tests\<close> is zero,
  and the resolve-time estimate is at least \<open>0.3\<close>.
\<close>

theorem aggregate_rates_bounded:
  assumes "\<forall>r \<in> set xs. 0 \<le> passed r \<and> passed r \<le> tests r"
  shows "0 \<le> passRate (aggregate xs) \<and> passRate (aggregate xs) \<le> 1 \<and>
         (tests_t (totals (aggregate xs)) = 0 \<longrightarrow> passRate (aggregate xs) = 0) \<and>
         3 / 10 \<le> mttrDays (aggregate xs)"
proof -
  let ?p = "sum_list (map passed xs)" and ?t = "sum_list (map tests xs)"
  have p: "0 \<le> ?p" and pt: "?p \<le> ?t"
    using assms by (simp_all add: sum_passed_bounds)
  have "0 \<le> passRate (aggregate xs)"
    using p pt by (simp add: passRate_aggregate)
  moreover have "passRate (aggregate xs) \<le> 1"
  proof (cases "?t = 0")
    case True
    then show ?thesis by (simp add: passRate_aggregate)
  next
    case False
    then have "0 < ?t"
      using p pt by simp
    then show ?thesis
      using pt by (simp add: passRate_aggregate)
  qed
  moreover have "tests_t (totals (aggregate xs)) = 0 \<longrightarrow> passRate (aggregate xs) = 0"
    by (simp add: passRate_aggregate totals_aggregate)
  moreover have "3 / 10 \<le> mttrDays (aggregate xs)"
    by (simp only: mttrDays_aggregate max.cobounded1)
  ultimately show ?thesis by blast
qed

text \<open>The series of two records of C9, and the empty series for the total that is zero.\<close>

theorem aggregate_rates_bounded_witness:
  "0 \<le> passRate (aggregate
     [\<lparr> date = 0, opened = 5, closed = 2, sev1 = 1, sev2 = 2, sev3 = 2, tests = 100, passed = 80 \<rparr>,
      \<lparr> date = 1, opened = 3, closed = 3, sev1 = 0, sev2 = 1, sev3 = 2, tests = 90, passed = 81 \<rparr>]) \<and>
   passRate (aggregate
     [\<lparr> date = 0, opened = 5, closed = 2, sev1 = 1, sev2 = 2, sev3 = 2, tests = 100, passed = 80 \<rparr>,
      \<lparr> date = 1, opened = 3, closed = 3, sev1 = 0, sev2 = 1, sev3 = 2, tests = 90, passed = 81 \<rparr>]) \<le> 1 \<and>
   3 / 10 \<le> mttrDays (aggregate
     [\<lparr> date = 0, opened = 5, closed = 2, sev1 = 1, sev2 = 2, sev3 = 2, tests = 100, passed = 80 \<rparr>,
      \<lparr> date = 1, opened = 3, closed = 3, sev1 = 0, sev2 = 1, sev3 = 2, tests = 90, passed = 81 \<rparr>]) \<and>
   passRate (aggregate []) = 0"
proof -
  have h: "\<forall>r \<in> set
     [\<lparr> date = 0, opened = 5, closed = 2, sev1 = 1, sev2 = 2, sev3 = 2, tests = 100, passed = 80 \<rparr>,
      \<lparr> date = 1, opened = 3, closed = 3, sev1 = 0, sev2 = 1, sev3 = 2, tests = 90, passed = 81 \<rparr>].
      0 \<le> passed r \<and> passed r \<le> tests r"
    by simp
  have e: "\<forall>r \<in> set ([] :: DailyRecord list). 0 \<le> passed r \<and> passed r \<le> tests r"
    by simp
  have "tests_t (totals (aggregate [])) = 0"
    by (simp add: totals_aggregate)
  then have "passRate (aggregate []) = 0"
    using aggregate_rates_bounded [OF e] by blast
  then show ?thesis
    using aggregate_rates_bounded [OF h] by blast
qed


end
